theory Spec2Isabelle
  imports Complex_Main "HOL-Library.Log_Nat"
begin

section \<open>Data model of the subscription service\<close>

text \<open>
  The service is the class \<open>SubscriptionService\<close>. Its records travel as JSON rows.
  Timestamps are ISO strings in the source, produced by \<open>Date.toISOString\<close> and read
  back by \<open>new Date\<close>; the model keeps the instant itself, in milliseconds since the epoch,
  which is what \<open>getTime\<close> returns and what every comparison and subtraction of the
  source works on. The instants of the model are unbounded integers; a \<open>Date\<close> holds
  instants up to 8.64e15 milliseconds either side of the epoch, which no clock reading
  plus 365 days comes near.
\<close>

type_synonym timestamp = int

text \<open>
  The status column has the four values of the source's union type. The plan type is kept
  as the string it is at run time: both switches of the source have a \<open>default\<close> branch
  for a value outside the union.
\<close>

datatype sub_status = Active | Expired | Cancelled | PastDue

record Subscription =
  id_col :: string
  user_id :: string
  plan_type :: string
  status :: sub_status
  stripe_subscription_id :: "string option"
  stripe_customer_id :: "string option"
  current_period_start :: timestamp
  current_period_end :: timestamp
  created_at :: timestamp
  updated_at :: timestamp

record PlanFeatures =
  maxCustomers :: int
  maxBranches :: int
  advancedAnalytics :: bool
  prioritySupport :: bool
  customBranding :: bool
  apiAccess :: bool

section \<open>Numbers\<close>

text \<open>
  A \<open>number\<close> of the source is an IEEE 754 double. The counts of
  \<open>getSubscriptionStats\<close> are array lengths, integers below \<open>2 ^ 32\<close>, which doubles
  hold exactly; they are natural numbers here. Any other double is modelled by the rational
  it denotes, and an arithmetic operation on doubles by the exact operation followed by
  rounding to the nearest double, ties to even, which is how the standard defines it.
  The exponent range is not modelled (no overflow, no subnormal numbers): over an array the
  sums of \<open>getSubscriptionStats\<close> stay below \<open>2 ^ 37\<close> and its quotients, when not
  zero, at or above \<open>2 ^ -32\<close>.
\<close>

text \<open>The binary exponent of a nonzero rational: \<open>2 ^ e \<le> \<bar>x\<bar> < 2 ^ (e + 1)\<close>.\<close>

definition ilog2 :: "rat \<Rightarrow> int" where
  "ilog2 x =
     (if 1 \<le> \<bar>x\<bar> then bitlen \<lfloor>\<bar>x\<bar>\<rfloor> - 1 else - bitlen (\<lceil>1 / \<bar>x\<bar>\<rceil> - 1))"

definition round_half_even :: "rat \<Rightarrow> int" where
  "round_half_even m =
     (let f = \<lfloor>m\<rfloor>; r = m - of_int f
      in if r < 1 / 2 then f else if 1 / 2 < r then f + 1 else if even f then f else f + 1)"

text \<open>
  The double nearest to a rational: the rational is scaled to a significand of 53 bits,
  which is rounded to an integer, ties to even.
\<close>

definition dbl :: "rat \<Rightarrow> rat" where
  "dbl x =
     (if x = 0 then 0
      else let e = ilog2 x - 52 in of_int (round_half_even (x / 2 powi e)) * 2 powi e)"

text \<open>The operators \<open>+\<close>, \<open>*\<close> and \<open>/\<close> on doubles.\<close>

definition dadd :: "rat \<Rightarrow> rat \<Rightarrow> rat" where
  "dadd a b = dbl (a + b)"

definition dmul :: "rat \<Rightarrow> rat \<Rightarrow> rat" where
  "dmul a b = dbl (a * b)"

definition ddiv :: "rat \<Rightarrow> rat \<Rightarrow> rat" where
  "ddiv a b = dbl (a / b)"

section \<open>Plan catalog\<close>

definition getTrialFeatures :: PlanFeatures where
  "getTrialFeatures =
     \<lparr> maxCustomers = 100, maxBranches = 1, advancedAnalytics = False,
       prioritySupport = False, customBranding = False, apiAccess = False \<rparr>"

text \<open>The ceiling \<open>-1\<close> is the source's sentinel for "unlimited".\<close>

definition getPlanFeatures :: "string \<Rightarrow> PlanFeatures" where
  "getPlanFeatures planType =
     (if planType = ''trial'' then getTrialFeatures
      else if planType = ''monthly'' \<or> planType = ''semiannual'' \<or> planType = ''annual'' then
        \<lparr> maxCustomers = - 1, maxBranches = - 1, advancedAnalytics = True,
          prioritySupport = True, customBranding = (planType \<noteq> ''monthly''),
          apiAccess = (planType \<noteq> ''monthly'') \<rparr>
      else getTrialFeatures)"

section \<open>The record store\<close>

text \<open>
  Modelled from the spec: the record store (the \<open>supabase\<close> client imported from
  \<open>../lib/supabase\<close>, an external collaborator). Its contract is insert with generated
  id, select by tenant ordered by creation descending with limit 1, select all, and update
  by id; a request answers with an object \<open>{data, error}\<close>, or its promise is rejected.
  The table is the list of its rows in insertion order. A store that is out of order
  answers every request with its error, in one of the two ways, and changes nothing.
\<close>

datatype pg_error = PostgrestError (error_code: string) (error_message: string)

datatype 'a reply = Reply (data: "'a option") (error: "pg_error option") | Rejected pg_error

datatype outage = ErrorReply pg_error | Rejection pg_error

record store =
  rows :: "Subscription list"
  outage :: "outage option"

text \<open>The values the table's column defaults produce for one insert.\<close>

record db_defaults =
  gen_id :: string
  gen_now :: timestamp

definition answer :: "store \<Rightarrow> 'a option \<Rightarrow> 'a reply" where
  "answer st d =
     (case outage st of
        None \<Rightarrow> Reply d None
      | Some (ErrorReply e) \<Rightarrow> Reply None (Some e)
      | Some (Rejection e) \<Rightarrow> Rejected e)"

text \<open>\<open>from('subscriptions').insert({...}).select().single()\<close>\<close>

definition insert_single ::
  "store \<Rightarrow> db_defaults \<Rightarrow> string \<Rightarrow> string \<Rightarrow> sub_status \<Rightarrow> string option \<Rightarrow> string option
     \<Rightarrow> timestamp \<Rightarrow> timestamp \<Rightarrow> Subscription reply \<times> store" where
  "insert_single st dflt uid pt stt ssid scid pstart pend =
     (let row = \<lparr> id_col = gen_id dflt, user_id = uid, plan_type = pt, status = stt,
                  stripe_subscription_id = ssid, stripe_customer_id = scid,
                  current_period_start = pstart, current_period_end = pend,
                  created_at = gen_now dflt, updated_at = gen_now dflt \<rparr>
      in (answer st (Some row),
          if outage st = None then st \<lparr> rows := rows st @ [row] \<rparr> else st))"

text \<open>
  The most recently created row of a list in insertion order; among rows with the same
  creation time, the one inserted last.
\<close>

fun latest :: "Subscription list \<Rightarrow> Subscription option" where
  "latest [] = None"
| "latest (r # rs) =
     (case latest rs of
        None \<Rightarrow> Some r
      | Some r' \<Rightarrow> if created_at r \<le> created_at r' then Some r' else Some r)"

text \<open>
  \<open>from('subscriptions').select('*').eq('user_id', userId)
  .order('created_at', {ascending: false}).limit(1).maybeSingle()\<close>
\<close>

definition select_latest :: "store \<Rightarrow> string \<Rightarrow> Subscription reply \<times> store" where
  "select_latest st uid = (answer st (latest (filter (\<lambda>r. user_id r = uid) (rows st))), st)"

text \<open>\<open>from('subscriptions').update({status, updated_at}).eq('id', subscriptionId)\<close>\<close>

definition update_by_id ::
  "store \<Rightarrow> string \<Rightarrow> sub_status \<Rightarrow> timestamp \<Rightarrow> unit reply \<times> store" where
  "update_by_id st sid stt upd =
     (answer st None,
      if outage st = None
      then st \<lparr> rows := map (\<lambda>r. if id_col r = sid
                                  then r \<lparr> status := stt, updated_at := upd \<rparr> else r) (rows st) \<rparr>
      else st)"

text \<open>
  \<open>from('subscriptions').select('plan_type, status, created_at')\<close>; the rows are
  returned whole, the service reads only the selected columns.
\<close>

definition select_all :: "store \<Rightarrow> Subscription list reply \<times> store" where
  "select_all st = (answer st (Some (rows st)), st)"

section \<open>The subscription service\<close>

text \<open>
  An \<open>async\<close> method returns \<open>Inr\<close> its value or \<open>Inl\<close> the error its promise is
  rejected with, together with the store it leaves. The argument \<open>now\<close> is the instant
  \<open>new Date()\<close> reads. Each \<open>try\<close> body is a case distinction on the store's reply;
  a \<open>catch\<close> that logs and rethrows keeps \<open>Inl\<close>, one that logs and returns a default
  gives \<open>Inr\<close> the default. A method that ends in \<open>return data\<close> returns the reply's
  \<open>data\<close> as it is, \<open>null\<close> included.
\<close>

definition createSubscription ::
  "store \<Rightarrow> db_defaults \<Rightarrow> timestamp \<Rightarrow> string \<Rightarrow> string \<Rightarrow> string option \<Rightarrow> string option
     \<Rightarrow> (pg_error + Subscription option) \<times> store" where
  "createSubscription st dflt now userId planType stripeSubscriptionId stripeCustomerId =
     (let periodStart = now;
          periodEnd =
            (if planType = ''trial'' then now + 30 * 24 * 60 * 60 * 1000
             else if planType = ''monthly'' then now + 30 * 24 * 60 * 60 * 1000
             else if planType = ''semiannual'' then now + 180 * 24 * 60 * 60 * 1000
             else if planType = ''annual'' then now + 365 * 24 * 60 * 60 * 1000
             else now + 30 * 24 * 60 * 60 * 1000)
      in case insert_single st dflt userId planType Active stripeSubscriptionId
                stripeCustomerId periodStart periodEnd of
           (Rejected e, st') \<Rightarrow> (Inl e, st')
         | (Reply dat err, st') \<Rightarrow>
             (case err of Some e \<Rightarrow> (Inl e, st') | None \<Rightarrow> (Inr dat, st')))"

definition getUserSubscription ::
  "store \<Rightarrow> string \<Rightarrow> (pg_error + Subscription option) \<times> store" where
  "getUserSubscription st userId =
     (case select_latest st userId of
        (Rejected e, st') \<Rightarrow> (Inr None, st')
      | (Reply dat err, st') \<Rightarrow>
          (case err of
             Some e \<Rightarrow>
               if error_code e \<noteq> ''PGRST116'' then (Inr None, st') else (Inr dat, st')
           | None \<Rightarrow> (Inr dat, st')))"

definition updateSubscriptionStatus ::
  "store \<Rightarrow> timestamp \<Rightarrow> string \<Rightarrow> sub_status \<Rightarrow> (pg_error + unit) \<times> store" where
  "updateSubscriptionStatus st now subscriptionId stt =
     (case update_by_id st subscriptionId stt now of
        (Rejected e, st') \<Rightarrow> (Inl e, st')
      | (Reply dat err, st') \<Rightarrow>
          (case err of Some e \<Rightarrow> (Inl e, st') | None \<Rightarrow> (Inr (), st')))"

text \<open>
  The result of \<open>checkSubscriptionAccess\<close>; \<open>daysRemaining\<close> is an optional property.
\<close>

record AccessDecision =
  hasAccess :: bool
  subscription :: "Subscription option"
  features :: PlanFeatures
  daysRemaining :: "int option"

text \<open>The object both the no-subscription branch and the \<open>catch\<close> branch return.\<close>

definition noSubscription :: AccessDecision where
  "noSubscription =
     \<lparr> hasAccess = False, subscription = None, features = getTrialFeatures,
       daysRemaining = None \<rparr>"

text \<open>
  The quotient of \<open>Math.ceil\<close> is taken in the rationals. The source divides two doubles;
  for instants less than \<open>2 ^ 53\<close> milliseconds apart the difference is exact and the
  rounded quotient has the same ceiling.
\<close>

definition checkSubscriptionAccess ::
  "store \<Rightarrow> timestamp \<Rightarrow> string \<Rightarrow> (pg_error + AccessDecision) \<times> store" where
  "checkSubscriptionAccess st now userId =
     (case getUserSubscription st userId of
        (Inl e, st') \<Rightarrow> (Inr noSubscription, st')
      | (Inr None, st') \<Rightarrow> (Inr noSubscription, st')
      | (Inr (Some sub), st') \<Rightarrow>
          (let endDate = current_period_end sub;
               access = (status sub = Active \<and> endDate > now);
               days = \<lceil>(of_int (endDate - now) :: rat) / (1000 * 60 * 60 * 24)\<rceil>
           in (Inr \<lparr> hasAccess = access, subscription = Some sub,
                     features = getPlanFeatures (plan_type sub),
                     daysRemaining = Some (if days > 0 then days else 0) \<rparr>, st')))"

text \<open>
  The result of \<open>getSubscriptionStats\<close>. Counts are natural numbers; revenue and churn
  rate are doubles. A decimal literal of the source, such as \<open>2.99\<close>, is the double
  nearest to it.
\<close>

record Stats =
  total :: nat
  active :: nat
  trial :: nat
  paid :: nat
  revenue :: rat
  churnRate :: rat

definition zeroStats :: Stats where
  "zeroStats = \<lparr> total = 0, active = 0, trial = 0, paid = 0, revenue = 0, churnRate = 0 \<rparr>"

text \<open>\<open>subscriptions?.filter(p).length || 0\<close>\<close>

definition count_where :: "(Subscription \<Rightarrow> bool) \<Rightarrow> Subscription list option \<Rightarrow> nat" where
  "count_where p subscriptions =
     (case subscriptions of None \<Rightarrow> 0 | Some ss \<Rightarrow> length (filter p ss))"

definition getSubscriptionStats :: "store \<Rightarrow> (pg_error + Stats) \<times> store" where
  "getSubscriptionStats st =
     (case select_all st of
        (Rejected e, st') \<Rightarrow> (Inr zeroStats, st')
      | (Reply subscriptions err, st') \<Rightarrow>
          (case err of
             Some e \<Rightarrow> (Inr zeroStats, st')
           | None \<Rightarrow>
               (let total' = (case subscriptions of None \<Rightarrow> 0 | Some ss \<Rightarrow> length ss);
                    active' = count_where (\<lambda>s. status s = Active) subscriptions;
                    trial' = count_where (\<lambda>s. plan_type s = ''trial'') subscriptions;
                    paid' = count_where (\<lambda>s. plan_type s \<noteq> ''trial'') subscriptions;
                    revenue' =
                      (case subscriptions of
                         None \<Rightarrow> 0
                       | Some ss \<Rightarrow>
                           foldl (\<lambda>sum sub.
                                    if plan_type sub = ''monthly'' then dadd sum (dbl 2.99)
                                    else if plan_type sub = ''semiannual''
                                      then dadd sum (dbl 9.99)
                                    else if plan_type sub = ''annual''
                                      then dadd sum (dbl 19.99)
                                    else sum) 0 ss);
                    cancelled = count_where (\<lambda>s. status s = Cancelled) subscriptions;
                    churnRate' =
                      (if total' > 0
                       then dmul (ddiv (of_nat cancelled) (of_nat total')) 100 else 0)
                in (Inr \<lparr> total = total', active = active', trial = trial', paid = paid',
                          revenue = revenue', churnRate = churnRate' \<rparr>, st'))))"

section \<open>A sample row\<close>

text \<open>A monthly subscription of tenant \<open>u1\<close> with a given status and end of period.\<close>

definition sampleRow :: "sub_status \<Rightarrow> timestamp \<Rightarrow> Subscription" where
  "sampleRow stt pend =
     \<lparr> id_col = ''s1'', user_id = ''u1'', plan_type = ''monthly'', status = stt,
       stripe_subscription_id = None, stripe_customer_id = None,
       current_period_start = 0, current_period_end = pend,
       created_at = 0, updated_at = 0 \<rparr>"

section \<open>Reference definitions\<close>

text \<open>The error a store that is out of order reports, by reply or by rejection.\<close>

definition outage_error :: "outage \<Rightarrow> pg_error" where
  "outage_error f = (case f of ErrorReply e \<Rightarrow> e | Rejection e \<Rightarrow> e)"

text \<open>
  The catalog duration in the specification's words: trial and monthly 30 days, semiannual
  180 days, annual 365 days, an unrecognised plan type 30 days.
\<close>

definition catalog_duration_days :: "string \<Rightarrow> int" where
  "catalog_duration_days p =
     (if p = ''trial'' \<or> p = ''monthly'' then 30
      else if p = ''semiannual'' then 180
      else if p = ''annual'' then 365
      else 30)"

text \<open>
  The flat price per plan in the specification's words: monthly 2.99, semiannual 9.99,
  annual 19.99, trial 0. The specification names no price for other plan types; they count
  for nothing here, as in the source.
\<close>

definition flat_price :: "string \<Rightarrow> rat" where
  "flat_price p =
     (if p = ''monthly'' then 2.99
      else if p = ''semiannual'' then 9.99
      else if p = ''annual'' then 19.99
      else 0)"

text \<open>The unit roundoff of doubles: half the gap between 1 and the next double.\<close>

definition unit_roundoff :: rat where
  "unit_roundoff = 1 / 2 ^ 53"

text \<open>A population of five rows: four active, one cancelled; one trial, four paid.\<close>

definition samplePopulation :: "Subscription list" where
  "samplePopulation =
     [sampleRow Active 2000,
      (sampleRow Cancelled 2000) \<lparr> plan_type := ''annual'' \<rparr>,
      (sampleRow Active 2000) \<lparr> plan_type := ''trial'' \<rparr>,
      (sampleRow Active 2000) \<lparr> plan_type := ''semiannual'' \<rparr>,
      (sampleRow Active 2000) \<lparr> plan_type := ''monthly'' \<rparr>]"

text \<open>Two active paid rows, one semiannual and one annual.\<close>

definition twoPaidRows :: "Subscription list" where
  "twoPaidRows =
     [(sampleRow Active 2000) \<lparr> plan_type := ''semiannual'' \<rparr>,
      (sampleRow Active 2000) \<lparr> plan_type := ''annual'' \<rparr>]"

text \<open>Twenty trial rows, eleven of them cancelled.\<close>

definition twentyTrialRows :: "Subscription list" where
  "twentyTrialRows =
     replicate 11 ((sampleRow Cancelled 2000) \<lparr> plan_type := ''trial'' \<rparr>)
     @ replicate 9 ((sampleRow Active 2000) \<lparr> plan_type := ''trial'' \<rparr>)"

section \<open>Properties of the plan catalog\<close>

text \<open>
  Claim C3. The feature function is total and returns: for trial, ceilings 100 and 1 with
  the four capability flags off; for monthly, unlimited ceilings (the sentinel \<open>-1\<close>) with
  advanced analytics and priority support on, custom branding and API access off; for
  semiannual and annual, the monthly set with custom branding and API access on; and for
  every other identifier the trial set.
\<close>

theorem getPlanFeatures_catalog:
  "getPlanFeatures ''trial'' =
     \<lparr> maxCustomers = 100, maxBranches = 1, advancedAnalytics = False,
       prioritySupport = False, customBranding = False, apiAccess = False \<rparr>
   \<and> getPlanFeatures ''monthly'' =
     \<lparr> maxCustomers = - 1, maxBranches = - 1, advancedAnalytics = True,
       prioritySupport = True, customBranding = False, apiAccess = False \<rparr>
   \<and> getPlanFeatures ''semiannual'' =
     (getPlanFeatures ''monthly'') \<lparr> customBranding := True, apiAccess := True \<rparr>
   \<and> getPlanFeatures ''annual'' =
     (getPlanFeatures ''monthly'') \<lparr> customBranding := True, apiAccess := True \<rparr>
   \<and> (\<forall>p. p \<notin> {''trial'', ''monthly'', ''semiannual'', ''annual''} \<longrightarrow>
          getPlanFeatures p = getPlanFeatures ''trial'')"
  by (simp add: getPlanFeatures_def getTrialFeatures_def)

theorem getPlanFeatures_catalog_witness:
  "''enterprise'' \<notin> {''trial'', ''monthly'', ''semiannual'', ''annual''}
   \<and> getPlanFeatures ''enterprise'' = getPlanFeatures ''trial''
   \<and> maxCustomers (getPlanFeatures ''enterprise'') = 100"
proof -
  have out: "''enterprise'' \<notin> {''trial'', ''monthly'', ''semiannual'', ''annual''}"
    by simp
  have "\<forall>p. p \<notin> {''trial'', ''monthly'', ''semiannual'', ''annual''} \<longrightarrow>
          getPlanFeatures p = getPlanFeatures ''trial''"
    using getPlanFeatures_catalog by (elim conjE)
  then have eq: "getPlanFeatures ''enterprise'' = getPlanFeatures ''trial''"
    using out by (elim allE [of _ "''enterprise''"] impE)
  have "maxCustomers (getPlanFeatures ''trial'') = 100"
    by (simp add: getPlanFeatures_def getTrialFeatures_def)
  with eq out show ?thesis by simp
qed

text \<open>
  Claim C10. For every plan-type input, recognised or not, the feature set grants custom
  branding exactly when it grants API access.
\<close>

theorem getPlanFeatures_branding_iff_api:
  "customBranding (getPlanFeatures p) = apiAccess (getPlanFeatures p)"
  by (simp add: getPlanFeatures_def getTrialFeatures_def)

theorem getPlanFeatures_branding_iff_api_witness:
  "customBranding (getPlanFeatures ''annual'') = apiAccess (getPlanFeatures ''annual'')
   \<and> apiAccess (getPlanFeatures ''annual'')"
  using getPlanFeatures_branding_iff_api [of "''annual''"]
  by (simp add: getPlanFeatures_def)

section \<open>Replies of the store and the lookup\<close>

lemma answer_up [simp]: "outage st = None \<Longrightarrow> answer st d = Reply d None"
  by (simp add: answer_def)

lemma answer_error_reply [simp]:
  "outage st = Some (ErrorReply e) \<Longrightarrow> answer st d = Reply None (Some e)"
  by (simp add: answer_def)

lemma answer_rejection [simp]: "outage st = Some (Rejection e) \<Longrightarrow> answer st d = Rejected e"
  by (simp add: answer_def)

lemma outage_cases:
  obtains "outage st = None"
  | e where "outage st = Some (ErrorReply e)"
  | e where "outage st = Some (Rejection e)"
proof (cases "outage st")
  case None
  then show ?thesis using that(1) by simp
next
  case (Some f)
  then show ?thesis using that(2,3) by (cases f) simp_all
qed

lemma getUserSubscription_eq:
  "getUserSubscription st userId =
     (Inr (if outage st = None then latest (filter (\<lambda>r. user_id r = userId) (rows st)) else None),
      st)"
  by (rule outage_cases [of st]) (simp_all add: getUserSubscription_def select_latest_def)

lemma checkSubscriptionAccess_store: "snd (checkSubscriptionAccess st now userId) = st"
  by (simp add: checkSubscriptionAccess_def getUserSubscription_eq Let_def split: option.split)

lemma checkSubscriptionAccess_none:
  "fst (getUserSubscription st userId) = Inr None \<Longrightarrow>
     checkSubscriptionAccess st now userId = (Inr noSubscription, st)"
  by (simp add: checkSubscriptionAccess_def getUserSubscription_eq split: if_splits)

lemma floor_at_zero: "(if d > (0::int) then d else 0) = max 0 d"
  by (simp add: max_def)

lemma checkSubscriptionAccess_some:
  "fst (getUserSubscription st userId) = Inr (Some sub) \<Longrightarrow>
     checkSubscriptionAccess st now userId =
       (Inr \<lparr> hasAccess = (status sub = Active \<and> now < current_period_end sub),
               subscription = Some sub,
               features = getPlanFeatures (plan_type sub),
               daysRemaining =
                 Some (max 0 \<lceil>(of_int (current_period_end sub - now) :: rat) / 86400000\<rceil>) \<rparr>,
        st)"
  unfolding checkSubscriptionAccess_def Let_def floor_at_zero
  by (simp add: getUserSubscription_eq split: if_splits)


lemma latest_None_iff: "latest rs = None \<longleftrightarrow> rs = []"
  by (cases rs) (simp_all split: option.split)

lemma getUserSubscription_draws_Inr:
  "\<exists>r. fst (getUserSubscription st userId) = Inr r"
  by (simp add: getUserSubscription_eq)

section \<open>Access evaluation\<close>

text \<open>
  Claim C1. When the lookup of the tenant's current subscription resolves to a record,
  \<open>checkSubscriptionAccess\<close> grants access if and only if the record's status is active
  and its period end is strictly later than now; a status other than active denies access
  whatever the period end, an elapsed period denies access whatever the status; and the
  store is left as it was, so no status is changed.
\<close>

theorem checkSubscriptionAccess_hasAccess_iff:
  assumes "fst (getUserSubscription st userId) = Inr (Some sub)"
  shows "\<exists>d. checkSubscriptionAccess st now userId = (Inr d, st)
           \<and> subscription d = Some sub
           \<and> (hasAccess d \<longleftrightarrow> status sub = Active \<and> now < current_period_end sub)
           \<and> (status sub \<noteq> Active \<longrightarrow> \<not> hasAccess d)
           \<and> (current_period_end sub \<le> now \<longrightarrow> \<not> hasAccess d)"
  using checkSubscriptionAccess_some [OF assms, of now] by simp

theorem checkSubscriptionAccess_hasAccess_iff_witness:
  "fst (getUserSubscription \<lparr> rows = [sampleRow Cancelled 2000], outage = None \<rparr> ''u1'')
     = Inr (Some (sampleRow Cancelled 2000))
   \<and> (\<exists>d. checkSubscriptionAccess \<lparr> rows = [sampleRow Cancelled 2000], outage = None \<rparr> 1000 ''u1''
            = (Inr d, \<lparr> rows = [sampleRow Cancelled 2000], outage = None \<rparr>)
          \<and> subscription d = Some (sampleRow Cancelled 2000)
          \<and> \<not> hasAccess d)"
proof -
  let ?st = "\<lparr> rows = [sampleRow Cancelled 2000], outage = None \<rparr>"
  have found: "fst (getUserSubscription ?st ''u1'') = Inr (Some (sampleRow Cancelled 2000))"
    by (simp add: getUserSubscription_eq sampleRow_def)
  have cancelled: "status (sampleRow Cancelled 2000) \<noteq> Active"
    by (simp add: sampleRow_def)
  from checkSubscriptionAccess_hasAccess_iff [OF found, of 1000] cancelled found
  show ?thesis by fast
qed

lemma no_row_no_latest:
  "(\<forall>r \<in> set rs. user_id r \<noteq> userId) \<Longrightarrow> latest (filter (\<lambda>r. user_id r = userId) rs) = None"
  by (simp add: latest_None_iff filter_empty_conv)

lemma getUserSubscription_outage:
  "outage st \<noteq> None \<Longrightarrow> fst (getUserSubscription st userId) = Inr None"
  by (cases "outage st") (simp_all add: getUserSubscription_eq)

text \<open>
  Claim C4. \<open>checkSubscriptionAccess\<close> always returns a decision and never rejects.
  For a tenant with no row in the store it returns no access, no subscription and the
  trial features; when the store is out of order, whichever way it fails, the result is
  that same object.
\<close>

theorem checkSubscriptionAccess_total:
  "(\<exists>d. fst (checkSubscriptionAccess st now userId) = Inr d)
   \<and> ((\<forall>r \<in> set (rows st). user_id r \<noteq> userId) \<longrightarrow>
         checkSubscriptionAccess st now userId = (Inr noSubscription, st))
   \<and> (outage st \<noteq> None \<longrightarrow>
         checkSubscriptionAccess st now userId = (Inr noSubscription, st))
   \<and> noSubscription =
        \<lparr> hasAccess = False, subscription = None, features = getPlanFeatures ''trial'',
          daysRemaining = None \<rparr>"
proof (intro conjI impI)
  show "\<exists>d. fst (checkSubscriptionAccess st now userId) = Inr d"
    by (simp add: checkSubscriptionAccess_def getUserSubscription_eq Let_def split: option.split)
next
  assume "\<forall>r \<in> set (rows st). user_id r \<noteq> userId"
  then have "fst (getUserSubscription st userId) = Inr None"
    by (simp add: getUserSubscription_eq no_row_no_latest)
  then show "checkSubscriptionAccess st now userId = (Inr noSubscription, st)"
    by (rule checkSubscriptionAccess_none)
next
  assume "outage st \<noteq> None"
  then have "fst (getUserSubscription st userId) = Inr None"
    by (rule getUserSubscription_outage)
  then show "checkSubscriptionAccess st now userId = (Inr noSubscription, st)"
    by (rule checkSubscriptionAccess_none)
next
  show "noSubscription =
        \<lparr> hasAccess = False, subscription = None, features = getPlanFeatures ''trial'',
          daysRemaining = None \<rparr>"
    by (simp add: noSubscription_def getPlanFeatures_def)
qed

theorem checkSubscriptionAccess_total_witness:
  "checkSubscriptionAccess \<lparr> rows = [], outage = None \<rparr> 1000 ''u1''
     = (Inr noSubscription, \<lparr> rows = [], outage = None \<rparr>)
   \<and> checkSubscriptionAccess
        \<lparr> rows = [sampleRow Active 2000],
          outage = Some (Rejection (PostgrestError ''503'' ''unavailable'')) \<rparr> 1000 ''u1''
     = (Inr noSubscription,
        \<lparr> rows = [sampleRow Active 2000],
          outage = Some (Rejection (PostgrestError ''503'' ''unavailable'')) \<rparr>)
   \<and> checkSubscriptionAccess \<lparr> rows = [sampleRow Active 2000], outage = None \<rparr> 1000 ''u2''
     = (Inr noSubscription, \<lparr> rows = [sampleRow Active 2000], outage = None \<rparr>)"
proof -
  let ?empty = "\<lparr> rows = [], outage = None \<rparr>"
  let ?down = "\<lparr> rows = [sampleRow Active 2000],
                 outage = Some (Rejection (PostgrestError ''503'' ''unavailable'')) \<rparr>"
  let ?other = "\<lparr> rows = [sampleRow Active 2000], outage = None \<rparr>"
  have "\<forall>r \<in> set (rows ?empty). user_id r \<noteq> ''u1''" by simp
  with checkSubscriptionAccess_total [of ?empty 1000 "''u1''", THEN conjunct2, THEN conjunct1]
  have a: "checkSubscriptionAccess ?empty 1000 ''u1'' = (Inr noSubscription, ?empty)"
    by (rule mp)
  have "outage ?down \<noteq> None" by simp
  with checkSubscriptionAccess_total [of ?down 1000 "''u1''", THEN conjunct2, THEN conjunct2,
      THEN conjunct1]
  have b: "checkSubscriptionAccess ?down 1000 ''u1'' = (Inr noSubscription, ?down)"
    by (rule mp)
  have "\<forall>r \<in> set (rows ?other). user_id r \<noteq> ''u2''" by (simp add: sampleRow_def)
  with checkSubscriptionAccess_total [of ?other 1000 "''u2''", THEN conjunct2, THEN conjunct1]
  have c: "checkSubscriptionAccess ?other 1000 ''u2'' = (Inr noSubscription, ?other)"
    by (rule mp)
  from a b c show ?thesis by (intro conjI)
qed

text \<open>
  Claim C5. For a resolved subscription, \<open>daysRemaining\<close> is the ceiling of the time left
  divided by one day, floored at zero, so never negative: a period that ended ten days ago
  gives 0, and an active subscription ending exactly one day from now has access with one
  day remaining.
\<close>

theorem checkSubscriptionAccess_daysRemaining:
  assumes "fst (getUserSubscription st userId) = Inr (Some sub)"
  shows "\<exists>d. fst (checkSubscriptionAccess st now userId) = Inr d
           \<and> daysRemaining d =
                Some (max 0 \<lceil>(of_int (current_period_end sub - now) :: rat) / 86400000\<rceil>)
           \<and> (\<exists>n. daysRemaining d = Some n \<and> 0 \<le> n)
           \<and> (current_period_end sub = now - 10 * 86400000 \<longrightarrow> daysRemaining d = Some 0)
           \<and> (status sub = Active \<and> current_period_end sub = now + 86400000 \<longrightarrow>
                 hasAccess d \<and> daysRemaining d = Some 1)"
  using checkSubscriptionAccess_some [OF assms, of now] by simp

theorem checkSubscriptionAccess_daysRemaining_witness:
  "fst (getUserSubscription \<lparr> rows = [sampleRow Active 86401000], outage = None \<rparr> ''u1'')
     = Inr (Some (sampleRow Active 86401000))
   \<and> (\<exists>d. fst (checkSubscriptionAccess
                  \<lparr> rows = [sampleRow Active 86401000], outage = None \<rparr> 1000 ''u1'') = Inr d
          \<and> hasAccess d \<and> daysRemaining d = Some 1)
   \<and> (\<exists>d. fst (checkSubscriptionAccess
                  \<lparr> rows = [sampleRow Active 1000], outage = None \<rparr> 864001000 ''u1'') = Inr d
          \<and> daysRemaining d = Some 0)"
proof -
  let ?st = "\<lparr> rows = [sampleRow Active 86401000], outage = None \<rparr>"
  let ?old = "\<lparr> rows = [sampleRow Active 1000], outage = None \<rparr>"
  have found: "fst (getUserSubscription ?st ''u1'') = Inr (Some (sampleRow Active 86401000))"
    by (simp add: getUserSubscription_eq sampleRow_def)
  have day: "status (sampleRow Active 86401000) = Active
             \<and> current_period_end (sampleRow Active 86401000) = 1000 + 86400000"
    by (simp add: sampleRow_def)
  have found_old: "fst (getUserSubscription ?old ''u1'') = Inr (Some (sampleRow Active 1000))"
    by (simp add: getUserSubscription_eq sampleRow_def)
  have ten: "current_period_end (sampleRow Active 1000) = 864001000 - 10 * 86400000"
    by (simp add: sampleRow_def)
  from checkSubscriptionAccess_daysRemaining [OF found, of 1000] day
  have one: "\<exists>d. fst (checkSubscriptionAccess ?st 1000 ''u1'') = Inr d
               \<and> hasAccess d \<and> daysRemaining d = Some 1"
    by fast
  from checkSubscriptionAccess_daysRemaining [OF found_old, of 864001000] ten
  have zero: "\<exists>d. fst (checkSubscriptionAccess ?old 864001000 ''u1'') = Inr d
               \<and> daysRemaining d = Some 0"
    by fast
  from found one zero show ?thesis by (intro conjI)
qed

text \<open>
  Claim C8, as stated: every decision carries a remaining-days value, the one for a tenant
  without a subscription included. The no-subscription object has no \<open>daysRemaining\<close>
  property.
\<close>

theorem checkSubscriptionAccess_daysRemaining_absent:
  "fst (checkSubscriptionAccess \<lparr> rows = [], outage = None \<rparr> 1000 ''u1'') = Inr noSubscription
   \<and> daysRemaining noSubscription = None"
  by (simp add: checkSubscriptionAccess_def getUserSubscription_eq noSubscription_def)

text \<open>
  Claim C8, amended. Every call returns a decision whose subscription is the one the
  lookup resolved; the decision carries a remaining-days value, which is at least zero,
  exactly when a subscription resolved, and none when the tenant has no subscription or
  the evaluation degraded on a store failure.
\<close>

theorem checkSubscriptionAccess_daysRemaining_presence:
  "\<exists>d. fst (checkSubscriptionAccess st now userId) = Inr d
      \<and> fst (getUserSubscription st userId) = Inr (subscription d)
      \<and> (case subscription d of
            None \<Rightarrow> daysRemaining d = None
          | Some sub \<Rightarrow> \<exists>n. daysRemaining d = Some n \<and> 0 \<le> n)"
proof -
  obtain r where r: "fst (getUserSubscription st userId) = Inr r"
    using getUserSubscription_draws_Inr by fast
  show ?thesis
  proof (cases r)
    case None
    with r checkSubscriptionAccess_none [of st userId now] show ?thesis
      by (simp add: noSubscription_def)
  next
    case (Some sub)
    with r checkSubscriptionAccess_some [of st userId sub now] show ?thesis
      by simp
  qed
qed

theorem checkSubscriptionAccess_daysRemaining_presence_witness:
  "(\<exists>d. fst (checkSubscriptionAccess \<lparr> rows = [sampleRow Expired 1000], outage = None \<rparr>
                864001000 ''u1'') = Inr d
        \<and> subscription d = Some (sampleRow Expired 1000)
        \<and> daysRemaining d = Some 0)"
proof -
  let ?st = "\<lparr> rows = [sampleRow Expired 1000], outage = None \<rparr>"
  have found: "fst (getUserSubscription ?st ''u1'') = Inr (Some (sampleRow Expired 1000))"
    by (simp add: getUserSubscription_eq sampleRow_def)
  from checkSubscriptionAccess_daysRemaining_presence [of ?st 864001000 "''u1''"]
  obtain d where d: "fst (checkSubscriptionAccess ?st 864001000 ''u1'') = Inr d"
    and s: "fst (getUserSubscription ?st ''u1'') = Inr (subscription d)"
    by fast
  from s found have sub: "subscription d = Some (sampleRow Expired 1000)" by simp
  have "fst (checkSubscriptionAccess ?st 864001000 ''u1'') =
          Inr \<lparr> hasAccess = False, subscription = Some (sampleRow Expired 1000),
                features = getPlanFeatures ''monthly'', daysRemaining = Some 0 \<rparr>"
    using checkSubscriptionAccess_some [OF found, of 864001000] by (simp add: sampleRow_def)
  with d have "d = \<lparr> hasAccess = False, subscription = Some (sampleRow Expired 1000),
                features = getPlanFeatures ''monthly'', daysRemaining = Some 0 \<rparr>"
    by simp
  then have "daysRemaining d = Some 0" by simp
  with d sub show ?thesis by fast
qed

section \<open>Creation and status transition\<close>

lemma insert_single_up:
  "outage st = None \<Longrightarrow>
     insert_single st dflt uid pt stt ssid scid pstart pend =
       (Reply (Some \<lparr> id_col = gen_id dflt, user_id = uid, plan_type = pt, status = stt,
                       stripe_subscription_id = ssid, stripe_customer_id = scid,
                       current_period_start = pstart, current_period_end = pend,
                       created_at = gen_now dflt, updated_at = gen_now dflt \<rparr>) None,
        st \<lparr> rows := rows st @
          [\<lparr> id_col = gen_id dflt, user_id = uid, plan_type = pt, status = stt,
             stripe_subscription_id = ssid, stripe_customer_id = scid,
             current_period_start = pstart, current_period_end = pend,
             created_at = gen_now dflt, updated_at = gen_now dflt \<rparr>] \<rparr>)"
  by (simp add: insert_single_def Let_def)

lemma insert_single_outage:
  "outage st = Some f \<Longrightarrow>
     insert_single st dflt uid pt stt ssid scid pstart pend =
       ((case f of ErrorReply e \<Rightarrow> Reply None (Some e) | Rejection e \<Rightarrow> Rejected e), st)"
  by (cases f) (simp_all add: insert_single_def Let_def)

lemma createSubscription_up:
  "outage st = None \<Longrightarrow>
     createSubscription st dflt now userId planType ssid scid =
       (Inr (Some \<lparr> id_col = gen_id dflt, user_id = userId, plan_type = planType,
                     status = Active, stripe_subscription_id = ssid,
                     stripe_customer_id = scid, current_period_start = now,
                     current_period_end = now + catalog_duration_days planType * 86400000,
                     created_at = gen_now dflt, updated_at = gen_now dflt \<rparr>),
        st \<lparr> rows := rows st @
          [\<lparr> id_col = gen_id dflt, user_id = userId, plan_type = planType,
             status = Active, stripe_subscription_id = ssid,
             stripe_customer_id = scid, current_period_start = now,
             current_period_end = now + catalog_duration_days planType * 86400000,
             created_at = gen_now dflt, updated_at = gen_now dflt \<rparr>] \<rparr>)"
  by (simp add: createSubscription_def insert_single_up catalog_duration_days_def Let_def)

lemma createSubscription_outage:
  "outage st = Some f \<Longrightarrow>
     createSubscription st dflt now userId planType ssid scid = (Inl (outage_error f), st)"
  by (cases f) (simp_all add: createSubscription_def insert_single_outage outage_error_def Let_def)

lemma update_by_id_up:
  "outage st = None \<Longrightarrow>
     update_by_id st sid stt upd =
       (Reply None None,
        st \<lparr> rows := map (\<lambda>r. if id_col r = sid
                                then r \<lparr> status := stt, updated_at := upd \<rparr> else r) (rows st) \<rparr>)"
  by (simp add: update_by_id_def)

lemma updateSubscriptionStatus_up:
  "outage st = None \<Longrightarrow>
     updateSubscriptionStatus st now subscriptionId stt =
       (Inr (),
        st \<lparr> rows := map (\<lambda>r. if id_col r = subscriptionId
                                then r \<lparr> status := stt, updated_at := now \<rparr> else r) (rows st) \<rparr>)"
  by (simp add: updateSubscriptionStatus_def update_by_id_up)

lemma updateSubscriptionStatus_outage:
  "outage st = Some f \<Longrightarrow>
     updateSubscriptionStatus st now subscriptionId stt = (Inl (outage_error f), st)"
  by (cases f) (simp_all add: updateSubscriptionStatus_def update_by_id_def outage_error_def)

text \<open>
  Claim C2. On a working store \<open>createSubscription\<close> produces a subscription, and every
  subscription it produces has period start = now, status active and period end = now plus
  the catalog duration: the period is exactly 30 days long for trial and monthly, 180 days
  for semiannual, 365 days for annual and 30 days for any other plan identifier, so the
  period end is later than the period start.
\<close>

theorem createSubscription_period:
  "(outage st = None \<longrightarrow>
      (\<exists>s. createSubscription st dflt now userId planType ssid scid =
             (Inr (Some s), st \<lparr> rows := rows st @ [s] \<rparr>)))
   \<and> (\<forall>s. fst (createSubscription st dflt now userId planType ssid scid) = Inr (Some s) \<longrightarrow>
          current_period_start s = now
        \<and> status s = Active
        \<and> current_period_end s = now + catalog_duration_days planType * 86400000
        \<and> current_period_end s - current_period_start s =
            (if planType = ''trial'' \<or> planType = ''monthly'' then 30
             else if planType = ''semiannual'' then 180
             else if planType = ''annual'' then 365
             else 30) * 86400000
        \<and> current_period_start s < current_period_end s
        \<and> user_id s = userId \<and> plan_type s = planType
        \<and> stripe_subscription_id s = ssid \<and> stripe_customer_id s = scid)"
proof (cases "outage st")
  case None
  note up = createSubscription_up [OF None, of dflt now userId planType ssid scid]
  have "\<exists>s. createSubscription st dflt now userId planType ssid scid =
             (Inr (Some s), st \<lparr> rows := rows st @ [s] \<rparr>)"
    unfolding up by (intro exI) (rule refl)
  moreover have "0 < catalog_duration_days planType * 86400000"
    by (simp add: catalog_duration_days_def)
  ultimately show ?thesis
    unfolding up by (simp add: catalog_duration_days_def)
next
  case (Some f)
  then show ?thesis by (simp add: createSubscription_outage)
qed

theorem createSubscription_period_witness:
  "\<exists>s. createSubscription \<lparr> rows = [], outage = None \<rparr> \<lparr> gen_id = ''s9'', gen_now = 1001 \<rparr>
          1000 ''u1'' ''annual'' None None
        = (Inr (Some s), \<lparr> rows = [s], outage = None \<rparr>)
      \<and> status s = Active
      \<and> current_period_start s = 1000
      \<and> current_period_end s - current_period_start s = 365 * 86400000"
proof -
  let ?st = "\<lparr> rows = [], outage = None \<rparr>"
  let ?dflt = "\<lparr> gen_id = ''s9'', gen_now = 1001 \<rparr>"
  note inst = createSubscription_period [of ?st ?dflt 1000 "''u1''" "''annual''" None None]
  have up: "outage ?st = None" by simp
  with inst [THEN conjunct1]
  have "\<exists>s. createSubscription ?st ?dflt 1000 ''u1'' ''annual'' None None =
              (Inr (Some s), ?st \<lparr> rows := rows ?st @ [s] \<rparr>)"
    by (rule mp)
  then obtain s where s: "createSubscription ?st ?dflt 1000 ''u1'' ''annual'' None None =
              (Inr (Some s), \<lparr> rows = [s], outage = None \<rparr>)"
    by auto
  then have "fst (createSubscription ?st ?dflt 1000 ''u1'' ''annual'' None None) = Inr (Some s)"
    by simp
  with inst [THEN conjunct2, THEN spec, of s]
  have "status s = Active \<and> current_period_start s = 1000
        \<and> current_period_end s - current_period_start s = 365 * 86400000"
    by simp
  with s show ?thesis by fast
qed

text \<open>
  Claim C7. When the store fails, \<open>createSubscription\<close> and \<open>updateSubscriptionStatus\<close>
  reject with the store's error, while \<open>getUserSubscription\<close> resolves to no subscription.
\<close>

theorem store_failure_split:
  assumes "outage st = Some f"
  shows "fst (createSubscription st dflt now userId planType ssid scid) = Inl (outage_error f)
       \<and> fst (updateSubscriptionStatus st now subscriptionId stt) = Inl (outage_error f)
       \<and> fst (getUserSubscription st userId) = Inr None"
  using assms
  by (simp add: createSubscription_outage updateSubscriptionStatus_outage
        getUserSubscription_eq)

theorem store_failure_split_witness:
  "fst (createSubscription
          \<lparr> rows = [sampleRow Active 2000],
            outage = Some (ErrorReply (PostgrestError ''57014'' ''timeout'')) \<rparr>
          \<lparr> gen_id = ''s9'', gen_now = 1001 \<rparr> 1000 ''u1'' ''annual'' None None)
     = Inl (PostgrestError ''57014'' ''timeout'')
   \<and> fst (updateSubscriptionStatus
          \<lparr> rows = [sampleRow Active 2000],
            outage = Some (ErrorReply (PostgrestError ''57014'' ''timeout'')) \<rparr>
          1000 ''s1'' Cancelled)
     = Inl (PostgrestError ''57014'' ''timeout'')
   \<and> fst (getUserSubscription
          \<lparr> rows = [sampleRow Active 2000],
            outage = Some (ErrorReply (PostgrestError ''57014'' ''timeout'')) \<rparr> ''u1'')
     = Inr None"
proof -
  let ?f = "ErrorReply (PostgrestError ''57014'' ''timeout'')"
  let ?st = "\<lparr> rows = [sampleRow Active 2000], outage = Some ?f \<rparr>"
  have down: "outage ?st = Some ?f" by simp
  have e: "outage_error ?f = PostgrestError ''57014'' ''timeout''"
    by (simp add: outage_error_def)
  from store_failure_split [OF down, of "\<lparr> gen_id = ''s9'', gen_now = 1001 \<rparr>" 1000 "''u1''"
      "''annual''" None None "''s1''" Cancelled]
  show ?thesis unfolding e .
qed

text \<open>
  Claim C9. On a working store \<open>updateSubscriptionStatus\<close> succeeds for every id and
  every new status, whatever the current status: each row with that id gets the new status
  and \<open>updated_at\<close> = now, every other field of it keeps its value, and every other row
  is unchanged.
\<close>

theorem updateSubscriptionStatus_frame:
  assumes "outage st = None"
  shows "\<exists>st'. updateSubscriptionStatus st now subscriptionId stt = (Inr (), st')
          \<and> outage st' = outage st
          \<and> length (rows st') = length (rows st)
          \<and> (\<forall>i < length (rows st).
                 (id_col (rows st ! i) = subscriptionId \<longrightarrow>
                    status (rows st' ! i) = stt \<and> updated_at (rows st' ! i) = now)
               \<and> (id_col (rows st ! i) \<noteq> subscriptionId \<longrightarrow> rows st' ! i = rows st ! i)
               \<and> id_col (rows st' ! i) = id_col (rows st ! i)
               \<and> user_id (rows st' ! i) = user_id (rows st ! i)
               \<and> plan_type (rows st' ! i) = plan_type (rows st ! i)
               \<and> stripe_subscription_id (rows st' ! i) = stripe_subscription_id (rows st ! i)
               \<and> stripe_customer_id (rows st' ! i) = stripe_customer_id (rows st ! i)
               \<and> current_period_start (rows st' ! i) = current_period_start (rows st ! i)
               \<and> current_period_end (rows st' ! i) = current_period_end (rows st ! i)
               \<and> created_at (rows st' ! i) = created_at (rows st ! i))"
  unfolding updateSubscriptionStatus_up [OF assms]
  by (intro exI conjI) (rule refl, simp_all)

theorem updateSubscriptionStatus_frame_witness:
  "\<exists>st'. updateSubscriptionStatus
            \<lparr> rows = [sampleRow Active 2000, (sampleRow Expired 3000) \<lparr> id_col := ''s2'' \<rparr>],
              outage = None \<rparr> 5000 ''s2'' Active = (Inr (), st')
         \<and> length (rows st') = 2
         \<and> rows st' ! 0 = sampleRow Active 2000
         \<and> status (rows st' ! 1) = Active
         \<and> updated_at (rows st' ! 1) = 5000
         \<and> current_period_end (rows st' ! 1) = 3000"
proof -
  let ?st = "\<lparr> rows = [sampleRow Active 2000, (sampleRow Expired 3000) \<lparr> id_col := ''s2'' \<rparr>],
              outage = None \<rparr>"
  have up: "outage ?st = None" by simp
  from updateSubscriptionStatus_frame [OF up, of 5000 "''s2''" Active]
  obtain st' where res: "updateSubscriptionStatus ?st 5000 ''s2'' Active = (Inr (), st')"
    and len: "length (rows st') = length (rows ?st)"
    and each: "\<forall>i < length (rows ?st).
                 (id_col (rows ?st ! i) = ''s2'' \<longrightarrow>
                    status (rows st' ! i) = Active \<and> updated_at (rows st' ! i) = 5000)
               \<and> (id_col (rows ?st ! i) \<noteq> ''s2'' \<longrightarrow> rows st' ! i = rows ?st ! i)
               \<and> current_period_end (rows st' ! i) = current_period_end (rows ?st ! i)"
    by fast
  from each [THEN spec, of 0] have first: "rows st' ! 0 = sampleRow Active 2000"
    by (simp add: sampleRow_def)
  from each [THEN spec, of 1]
  have second: "status (rows st' ! 1) = Active \<and> updated_at (rows st' ! 1) = 5000
                \<and> current_period_end (rows st' ! 1) = 3000"
    by (simp add: sampleRow_def)
  from len have "length (rows st') = 2" by simp
  with res first second show ?thesis by fast
qed

section \<open>Rounding to doubles\<close>

text \<open>
  The exponent \<open>ilog2\<close> finds is the binary exponent, so \<open>dbl\<close> rounds to a significand of
  53 bits, and the rounded value is within the unit roundoff of the exact one, relatively.
\<close>

lemma bitlen_pos: "0 < n \<Longrightarrow> 1 \<le> bitlen n"
  using bitlen_eq_zero_iff [of n] bitlen_nonneg [of n] by linarith

lemma round_half_even_error: "\<bar>of_int (round_half_even m) - m\<bar> \<le> 1 / 2"
proof -
  have "of_int \<lfloor>m\<rfloor> \<le> m" "m < of_int \<lfloor>m\<rfloor> + 1" by linarith+
  then show ?thesis
    by (simp add: round_half_even_def Let_def abs_le_iff)
qed

lemma round_half_even_nonneg: "0 \<le> m \<Longrightarrow> 0 \<le> round_half_even m"
proof -
  assume "0 \<le> m"
  then have "0 \<le> \<lfloor>m\<rfloor>" by simp
  then show ?thesis by (simp add: round_half_even_def Let_def)
qed

lemma ilog2_ge_one:
  assumes "1 \<le> a"
  shows "2 powi (bitlen \<lfloor>a\<rfloor> - 1) \<le> (a::rat)" and "a < 2 powi (bitlen \<lfloor>a\<rfloor> - 1 + 1)"
proof -
  let ?n = "\<lfloor>a\<rfloor>"
  from assms have n: "0 < ?n" by simp
  from bitlen_bounds [OF n]
  have lo: "2 ^ nat (bitlen ?n - 1) \<le> ?n" and hi: "?n < 2 ^ nat (bitlen ?n)" by simp_all
  from bitlen_pos [OF n] have e: "0 \<le> bitlen ?n - 1" by simp
  from lo have "(of_int (2 ^ nat (bitlen ?n - 1)) :: rat) \<le> of_int ?n"
    by (simp only: of_int_le_iff)
  then have "(2::rat) ^ nat (bitlen ?n - 1) \<le> of_int ?n" by simp
  also have "\<dots> \<le> a" by simp
  finally show "2 powi (bitlen ?n - 1) \<le> a" using e by (simp add: power_int_def)
  from hi have "?n + 1 \<le> 2 ^ nat (bitlen ?n)" by simp
  then have "(of_int (?n + 1) :: rat) \<le> of_int (2 ^ nat (bitlen ?n))"
    by (simp only: of_int_le_iff)
  then have "of_int ?n + 1 \<le> (2::rat) ^ nat (bitlen ?n)" by simp
  moreover have "a < of_int ?n + 1" by linarith
  ultimately have "a < (2::rat) ^ nat (bitlen ?n)" by linarith
  then show "a < 2 powi (bitlen ?n - 1 + 1)" using e by (simp add: power_int_def)
qed

lemma ilog2_lt_one:
  assumes "0 < a" "a < 1"
  shows "2 powi (- bitlen (\<lceil>1 / a\<rceil> - 1)) \<le> (a::rat)"
    and "a < 2 powi (- bitlen (\<lceil>1 / a\<rceil> - 1) + 1)"
proof -
  let ?y = "1 / a"
  let ?n = "\<lceil>?y\<rceil> - 1"
  let ?j = "bitlen ?n"
  from assms have y: "1 < ?y" by simp
  then have "1 < \<lceil>?y\<rceil>" by (simp add: less_ceiling_iff)
  then have n: "0 < ?n" by simp
  have below: "of_int ?n < ?y" by linarith
  have above: "?y \<le> of_int ?n + 1" by linarith
  from bitlen_bounds [OF n]
  have lo: "2 ^ nat (?j - 1) \<le> ?n" and hi: "?n < 2 ^ nat ?j" by simp_all
  from bitlen_pos [OF n] have j: "1 \<le> ?j" .
  from hi have "?n + 1 \<le> 2 ^ nat ?j" by simp
  then have "(of_int (?n + 1) :: rat) \<le> of_int (2 ^ nat ?j)" by (simp only: of_int_le_iff)
  then have "of_int ?n + 1 \<le> (2::rat) ^ nat ?j" by simp
  with above have "?y \<le> 2 ^ nat ?j" by linarith
  then have "1 \<le> a * 2 ^ nat ?j" using assms(1) by (simp add: field_simps)
  then have "1 / 2 ^ nat ?j \<le> a" by (simp add: field_simps)
  then show "2 powi (- ?j) \<le> a" using j by (simp add: power_int_def field_simps)
  from lo have "(of_int (2 ^ nat (?j - 1)) :: rat) \<le> of_int ?n" by (simp only: of_int_le_iff)
  then have "(2::rat) ^ nat (?j - 1) \<le> of_int ?n" by simp
  with below have "(2::rat) ^ nat (?j - 1) < ?y" by linarith
  then have "a * 2 ^ nat (?j - 1) < 1" using assms(1) by (simp add: field_simps)
  then have lt: "a < 1 / 2 ^ nat (?j - 1)" by (simp add: field_simps)
  have "- ?j + 1 \<le> 0" using j by simp
  moreover have "nat (- (- ?j + 1)) = nat (?j - 1)" by simp
  ultimately have "(2::rat) powi (- ?j + 1) = 1 / 2 ^ nat (?j - 1)"
    by (cases "- ?j + 1 = 0") (simp_all add: power_int_def field_simps)
  with lt show "a < 2 powi (- ?j + 1)" by simp
qed

lemma ilog2_bounds:
  assumes "x \<noteq> 0"
  shows "2 powi ilog2 x \<le> \<bar>x\<bar>" and "\<bar>x\<bar> < 2 powi (ilog2 x + 1)"
proof -
  from assms have pos: "0 < \<bar>x\<bar>" by simp
  show "2 powi ilog2 x \<le> \<bar>x\<bar>"
  proof (cases "1 \<le> \<bar>x\<bar>")
    case True
    then show ?thesis using ilog2_ge_one(1) [OF True] by (simp add: ilog2_def)
  next
    case False
    then have "\<bar>x\<bar> < 1" by simp
    from ilog2_lt_one(1) [OF pos this] False show ?thesis by (simp add: ilog2_def)
  qed
  show "\<bar>x\<bar> < 2 powi (ilog2 x + 1)"
  proof (cases "1 \<le> \<bar>x\<bar>")
    case True
    then show ?thesis using ilog2_ge_one(2) [OF True] by (simp add: ilog2_def)
  next
    case False
    then have "\<bar>x\<bar> < 1" by simp
    from ilog2_lt_one(2) [OF pos this] False show ?thesis by (simp add: ilog2_def)
  qed
qed


lemma dbl_error: "\<bar>dbl x - x\<bar> \<le> \<bar>x\<bar> / 2 ^ 53"
proof (cases "x = 0")
  case True
  then show ?thesis by (simp add: dbl_def)
next
  case False
  define s :: rat where "s = 2 powi (ilog2 x - 52)"
  have s: "0 < s" by (simp add: s_def)
  have d: "dbl x = of_int (round_half_even (x / s)) * s"
    using False by (simp add: dbl_def s_def Let_def)
  have "dbl x - x = (of_int (round_half_even (x / s)) - x / s) * s"
    using s by (simp add: d field_simps)
  then have "\<bar>dbl x - x\<bar> = \<bar>of_int (round_half_even (x / s)) - x / s\<bar> * s"
    using s by (simp add: abs_mult)
  also have "\<dots> \<le> (1 / 2) * s"
    using round_half_even_error [of "x / s"] s by (intro mult_right_mono) simp_all
  also have "(1 / 2) * s = 2 powi ilog2 x / 2 ^ 53"
    by (simp add: s_def power_int_diff)
  also have "\<dots> \<le> \<bar>x\<bar> / 2 ^ 53"
    using ilog2_bounds(1) [OF False] by (simp add: divide_right_mono)
  finally show ?thesis .
qed

lemma dbl_nonneg: "0 \<le> x \<Longrightarrow> 0 \<le> dbl x"
  by (simp add: dbl_def Let_def round_half_even_nonneg)

lemma dbl_zero: "dbl 0 = 0"
  by (simp add: dbl_def)

lemma dbl_within:
  assumes "0 \<le> x"
  shows "(1 - 1 / 2 ^ 53) * x \<le> dbl x" and "dbl x \<le> (1 + 1 / 2 ^ 53) * x"
proof -
  define u :: rat where "u = 1 / 2 ^ 53"
  from dbl_error [of x] assms have "\<bar>dbl x - x\<bar> \<le> x * u" by (simp add: u_def)
  then have "- (x * u) \<le> dbl x - x" and "dbl x - x \<le> x * u"
    by (simp_all only: abs_le_iff minus_diff_eq) linarith+
  then have "(1 - u) * x \<le> dbl x" and "dbl x \<le> (1 + u) * x"
    by (simp_all only: algebra_simps)
  then show "(1 - 1 / 2 ^ 53) * x \<le> dbl x" and "dbl x \<le> (1 + 1 / 2 ^ 53) * x"
    unfolding u_def .
qed

lemma unit_roundoff_range: "0 < unit_roundoff" "unit_roundoff < 1"
  by (simp_all add: unit_roundoff_def)

lemma dbl_lower: "0 \<le> x \<Longrightarrow> (1 - unit_roundoff) * x \<le> dbl x"
  unfolding unit_roundoff_def by (rule dbl_within(1))

lemma dbl_upper: "0 \<le> x \<Longrightarrow> dbl x \<le> (1 + unit_roundoff) * x"
  unfolding unit_roundoff_def by (rule dbl_within(2))

lemma dadd_dbl_lower:
  fixes lo :: rat
  assumes lo: "lo = 1 - unit_roundoff"
    and A: "0 \<le> A" and p: "0 \<le> p" and a: "lo ^ Suc n * A \<le> a"
  shows "lo ^ Suc (Suc n) * (A + p) \<le> dadd a (dbl p)"
proof -
  have lo0: "0 \<le> lo" and lo1: "lo \<le> 1"
    using unit_roundoff_range by (simp_all add: lo)
  have pw: "lo ^ Suc n \<le> lo" using lo0 lo1 by (rule power_Suc_le_self)
  have a0: "0 \<le> a"
    using a A lo0 by (meson mult_nonneg_nonneg order_trans zero_le_power)
  have c: "lo * p \<le> dbl p" using dbl_lower [OF p] by (simp add: lo)
  have c0: "0 \<le> dbl p" using p by (rule dbl_nonneg)
  have "lo ^ Suc n * p \<le> lo * p" using pw p by (rule mult_right_mono)
  with c have "lo ^ Suc n * p \<le> dbl p" by linarith
  with a have "lo ^ Suc n * A + lo ^ Suc n * p \<le> a + dbl p" by linarith
  then have "lo ^ Suc n * (A + p) \<le> a + dbl p" by (simp add: algebra_simps)
  then have "lo * (lo ^ Suc n * (A + p)) \<le> lo * (a + dbl p)"
    using lo0 by (rule mult_left_mono)
  also have "\<dots> \<le> dbl (a + dbl p)"
    using dbl_lower [of "a + dbl p"] a0 c0 by (simp add: lo)
  finally show ?thesis by (simp add: dadd_def mult.assoc)
qed

lemma dadd_dbl_upper:
  fixes hi :: rat
  assumes hi: "hi = 1 + unit_roundoff"
    and A: "0 \<le> A" and p: "0 \<le> p" and a0: "0 \<le> a" and a: "a \<le> hi ^ Suc n * A"
  shows "dadd a (dbl p) \<le> hi ^ Suc (Suc n) * (A + p)"
proof -
  have hi1: "1 \<le> hi" using unit_roundoff_range by (simp add: hi)
  then have hi0: "0 \<le> hi" by simp
  have pw: "hi \<le> hi ^ Suc n" using hi1 by (rule self_le_power) simp
  have c: "dbl p \<le> hi * p" using dbl_upper [OF p] by (simp add: hi)
  have c0: "0 \<le> dbl p" using p by (rule dbl_nonneg)
  have "hi * p \<le> hi ^ Suc n * p" using pw p by (rule mult_right_mono)
  with c have "dbl p \<le> hi ^ Suc n * p" by linarith
  with a have "a + dbl p \<le> hi ^ Suc n * A + hi ^ Suc n * p" by linarith
  then have le: "a + dbl p \<le> hi ^ Suc n * (A + p)" by (simp add: algebra_simps)
  have "dbl (a + dbl p) \<le> hi * (a + dbl p)"
    using dbl_upper [of "a + dbl p"] a0 c0 by (simp add: hi)
  also have "\<dots> \<le> hi * (hi ^ Suc n * (A + p))"
    using le hi0 by (rule mult_left_mono)
  finally show ?thesis by (simp add: dadd_def mult.assoc)
qed

lemma lower_weaken:
  fixes lo :: rat
  assumes "lo = 1 - unit_roundoff" "0 \<le> A" "lo ^ Suc n * A \<le> a"
  shows "lo ^ Suc (Suc n) * A \<le> a"
proof -
  have lo0: "0 \<le> lo" and lo1: "lo \<le> 1"
    using unit_roundoff_range by (simp_all add: assms(1))
  have "lo ^ Suc (Suc n) \<le> lo ^ Suc n"
    using lo0 lo1 by (intro power_decreasing) simp_all
  then have "lo ^ Suc (Suc n) * A \<le> lo ^ Suc n * A"
    using assms(2) by (rule mult_right_mono)
  with assms(3) show ?thesis by linarith
qed

lemma upper_weaken:
  fixes hi :: rat
  assumes "hi = 1 + unit_roundoff" "0 \<le> A" "a \<le> hi ^ Suc n * A"
  shows "a \<le> hi ^ Suc (Suc n) * A"
proof -
  have hi1: "1 \<le> hi" using unit_roundoff_range by (simp add: assms(1))
  have "hi ^ Suc n \<le> hi ^ Suc (Suc n)"
    using hi1 by (intro power_increasing) simp_all
  then have "hi ^ Suc n * A \<le> hi ^ Suc (Suc n) * A"
    using assms(2) by (rule mult_right_mono)
  with assms(3) show ?thesis by linarith
qed

section \<open>Aggregate statistics\<close>

lemma revenue_foldl_within:
  fixes lo hi :: rat
  assumes lo: "lo = 1 - unit_roundoff" and hi: "hi = 1 + unit_roundoff"
    and A: "0 \<le> A" and a0: "0 \<le> a"
    and lower: "lo ^ Suc n * A \<le> a" and upper: "a \<le> hi ^ Suc n * A"
  shows "lo ^ (Suc n + length ss) * (A + (\<Sum>s\<leftarrow>ss. flat_price (plan_type s)))
           \<le> foldl (\<lambda>sum sub.
                      if plan_type sub = ''monthly'' then dadd sum (dbl 2.99)
                      else if plan_type sub = ''semiannual'' then dadd sum (dbl 9.99)
                      else if plan_type sub = ''annual'' then dadd sum (dbl 19.99)
                      else sum) a ss
         \<and> foldl (\<lambda>sum sub.
                      if plan_type sub = ''monthly'' then dadd sum (dbl 2.99)
                      else if plan_type sub = ''semiannual'' then dadd sum (dbl 9.99)
                      else if plan_type sub = ''annual'' then dadd sum (dbl 19.99)
                      else sum) a ss
           \<le> hi ^ (Suc n + length ss) * (A + (\<Sum>s\<leftarrow>ss. flat_price (plan_type s)))"
  using A a0 lower upper
proof (induction ss arbitrary: a A n)
  case Nil
  then show ?case by simp
next
  case (Cons s ss)
  let ?step = "\<lambda>sum sub.
                      if plan_type sub = ''monthly'' then dadd sum (dbl 2.99)
                      else if plan_type sub = ''semiannual'' then dadd sum (dbl 9.99)
                      else if plan_type sub = ''annual'' then dadd sum (dbl 19.99)
                      else sum"
  let ?p = "flat_price (plan_type s)"
  have p0: "0 \<le> ?p" by (simp add: flat_price_def)
  have A': "0 \<le> A + ?p" using Cons.prems(1) p0 by simp
  have paid: "?step a s = (if ?p = 0 then a else dadd a (dbl ?p))"
    by (simp add: flat_price_def)
  have a': "0 \<le> ?step a s"
    unfolding paid using Cons.prems(2) p0 by (simp add: dadd_def dbl_nonneg)
  have lower': "lo ^ Suc (Suc n) * (A + ?p) \<le> ?step a s"
  proof (cases "?p = 0")
    case True
    with lower_weaken [OF lo Cons.prems(1) Cons.prems(3)] show ?thesis
      unfolding paid by simp
  next
    case False
    with dadd_dbl_lower [OF lo Cons.prems(1) p0 Cons.prems(3)] show ?thesis
      unfolding paid by simp
  qed
  have upper': "?step a s \<le> hi ^ Suc (Suc n) * (A + ?p)"
  proof (cases "?p = 0")
    case True
    with upper_weaken [OF hi Cons.prems(1) Cons.prems(4)] show ?thesis
      unfolding paid by simp
  next
    case False
    with dadd_dbl_upper [OF hi Cons.prems(1) p0 Cons.prems(2) Cons.prems(4)] show ?thesis
      unfolding paid by simp
  qed
  from Cons.IH [OF A' a' lower' upper'] show ?case
    by (simp add: add.assoc)
qed


lemma churn_within:
  assumes q: "0 \<le> q"
  shows "(1 - unit_roundoff) ^ 2 * (100 * q) \<le> dmul (dbl q) 100"
    and "dmul (dbl q) 100 \<le> (1 + unit_roundoff) ^ 2 * (100 * q)"
proof -
  define lo hi :: rat where "lo = 1 - unit_roundoff" and "hi = 1 + unit_roundoff"
  have lo0: "0 \<le> lo" and hi0: "0 \<le> hi"
    using unit_roundoff_range by (simp_all add: lo_def hi_def)
  have y0: "0 \<le> dbl q" using q by (rule dbl_nonneg)
  then have z0: "0 \<le> dbl q * 100" by simp
  have "lo * q \<le> dbl q" using dbl_lower [OF q] by (simp add: lo_def)
  then have "lo * q * 100 \<le> dbl q * 100" by simp
  then have "lo * (lo * q * 100) \<le> lo * (dbl q * 100)" using lo0 by (rule mult_left_mono)
  also have "\<dots> \<le> dbl (dbl q * 100)" using dbl_lower [OF z0] by (simp add: lo_def)
  finally have "lo ^ 2 * (100 * q) \<le> dmul (dbl q) 100"
    by (simp add: dmul_def power2_eq_square algebra_simps)
  then show "(1 - unit_roundoff) ^ 2 * (100 * q) \<le> dmul (dbl q) 100"
    by (simp only: lo_def)
  have "dbl q \<le> hi * q" using dbl_upper [OF q] by (simp add: hi_def)
  then have le: "dbl q * 100 \<le> hi * q * 100" by simp
  have "dbl (dbl q * 100) \<le> hi * (dbl q * 100)" using dbl_upper [OF z0] by (simp add: hi_def)
  also have "\<dots> \<le> hi * (hi * q * 100)" using le hi0 by (rule mult_left_mono)
  finally have "dmul (dbl q) 100 \<le> hi ^ 2 * (100 * q)"
    by (simp add: dmul_def power2_eq_square algebra_simps)
  then show "dmul (dbl q) 100 \<le> (1 + unit_roundoff) ^ 2 * (100 * q)"
    by (simp only: hi_def)
qed

lemma getSubscriptionStats_up:
  assumes "outage st = None"
  shows "getSubscriptionStats st =
     (Inr \<lparr> total = length (rows st),
             active = length (filter (\<lambda>s. status s = Active) (rows st)),
             trial = length (filter (\<lambda>s. plan_type s = ''trial'') (rows st)),
             paid = length (filter (\<lambda>s. plan_type s \<noteq> ''trial'') (rows st)),
             revenue =
               foldl (\<lambda>sum sub.
                        if plan_type sub = ''monthly'' then dadd sum (dbl 2.99)
                        else if plan_type sub = ''semiannual'' then dadd sum (dbl 9.99)
                        else if plan_type sub = ''annual'' then dadd sum (dbl 19.99)
                        else sum) 0 (rows st),
             churnRate =
               (if rows st = [] then 0
                else dmul (dbl (of_nat (length (filter (\<lambda>s. status s = Cancelled) (rows st)))
                                / of_nat (length (rows st)))) 100) \<rparr>,
      st)"
  using assms
  by (simp add: getSubscriptionStats_def select_all_def count_where_def ddiv_def Let_def)

lemma getSubscriptionStats_outage:
  "outage st \<noteq> None \<Longrightarrow> getSubscriptionStats st = (Inr zeroStats, st)"
  by (rule outage_cases [of st]) (simp_all add: getSubscriptionStats_def select_all_def)

text \<open>
  Claim C6, as stated: the revenue is the sum of the flat plan prices and the churn rate is
  100 times the share of cancelled rows. For one semiannual and one annual row the source
  returns 29.979999999999997, below both 29.98 and the double nearest to 29.98; for eleven
  cancelled rows out of twenty it returns 55.00000000000001, above 55.
\<close>

theorem getSubscriptionStats_inexact:
  "getSubscriptionStats \<lparr> rows = twoPaidRows, outage = None \<rparr>
     = (Inr \<lparr> total = 2, active = 2, trial = 0, paid = 2,
              revenue = 4219309900892733 / 140737488355328, churnRate = 0 \<rparr>,
        \<lparr> rows = twoPaidRows, outage = None \<rparr>)
   \<and> (\<Sum>s\<leftarrow>twoPaidRows. flat_price (plan_type s)) = 2998 / 100
   \<and> (4219309900892733 / 140737488355328 :: rat) < 2998 / 100
   \<and> (4219309900892733 / 140737488355328 :: rat) < dbl (2998 / 100)
   \<and> getSubscriptionStats \<lparr> rows = twentyTrialRows, outage = None \<rparr>
     = (Inr \<lparr> total = 20, active = 9, trial = 20, paid = 0, revenue = 0,
              churnRate = 7740561859543041 / 140737488355328 \<rparr>,
        \<lparr> rows = twentyTrialRows, outage = None \<rparr>)
   \<and> length (filter (\<lambda>s. status s = Cancelled) twentyTrialRows) = 11
   \<and> (100 * 11 / 20 :: rat) < 7740561859543041 / 140737488355328"
proof (intro conjI)
  show "getSubscriptionStats \<lparr> rows = twoPaidRows, outage = None \<rparr>
     = (Inr \<lparr> total = 2, active = 2, trial = 0, paid = 2,
              revenue = 4219309900892733 / 140737488355328, churnRate = 0 \<rparr>,
        \<lparr> rows = twoPaidRows, outage = None \<rparr>)"
    by code_simp
  show "(\<Sum>s\<leftarrow>twoPaidRows. flat_price (plan_type s)) = 2998 / 100"
    by code_simp
  show "(4219309900892733 / 140737488355328 :: rat) < 2998 / 100"
    by simp
  show "(4219309900892733 / 140737488355328 :: rat) < dbl (2998 / 100)"
    by code_simp
  show "getSubscriptionStats \<lparr> rows = twentyTrialRows, outage = None \<rparr>
     = (Inr \<lparr> total = 20, active = 9, trial = 20, paid = 0, revenue = 0,
              churnRate = 7740561859543041 / 140737488355328 \<rparr>,
        \<lparr> rows = twentyTrialRows, outage = None \<rparr>)"
    by code_simp
  show "length (filter (\<lambda>s. status s = Cancelled) twentyTrialRows) = 11"
    by code_simp
  show "(100 * 11 / 20 :: rat) < 7740561859543041 / 140737488355328"
    by simp
qed

text \<open>
  Claim C6, amended. On a working store \<open>getSubscriptionStats\<close> returns exactly the number
  of rows, of active rows, of trial rows and of non-trial rows. Its revenue is the sum of
  the flat plan prices over all rows accumulated in double arithmetic, which lies within a
  factor \<open>(1 \<plusminus> 2 ^ -53) ^ (n + 1)\<close> of the exact sum for \<open>n\<close> rows; its churn rate is
  \<open>(cancelled / total) * 100\<close> in double arithmetic, within a factor
  \<open>(1 \<plusminus> 2 ^ -53) ^ 2\<close> of 100 times the share of cancelled rows, and 0 when there is no
  row. An empty population gives all zeros, and a failing store gives the zeroed object
  instead of an error.
\<close>

theorem getSubscriptionStats_rounded:
  "(outage st = None \<longrightarrow>
      (\<exists>r. getSubscriptionStats st = (Inr r, st)
          \<and> total r = length (rows st)
          \<and> active r = length (filter (\<lambda>s. status s = Active) (rows st))
          \<and> trial r = length (filter (\<lambda>s. plan_type s = ''trial'') (rows st))
          \<and> paid r = length (filter (\<lambda>s. plan_type s \<noteq> ''trial'') (rows st))
          \<and> (1 - unit_roundoff) ^ (length (rows st) + 1)
                * (\<Sum>s\<leftarrow>rows st. flat_price (plan_type s)) \<le> revenue r
          \<and> revenue r \<le> (1 + unit_roundoff) ^ (length (rows st) + 1)
                * (\<Sum>s\<leftarrow>rows st. flat_price (plan_type s))
          \<and> (1 - unit_roundoff) ^ 2
                * (100 * of_nat (length (filter (\<lambda>s. status s = Cancelled) (rows st)))
                     / of_nat (length (rows st))) \<le> churnRate r
          \<and> churnRate r \<le> (1 + unit_roundoff) ^ 2
                * (100 * of_nat (length (filter (\<lambda>s. status s = Cancelled) (rows st)))
                     / of_nat (length (rows st)))
          \<and> (rows st = [] \<longrightarrow> churnRate r = 0)))
   \<and> (outage st = None \<and> rows st = [] \<longrightarrow> getSubscriptionStats st = (Inr zeroStats, st))
   \<and> (outage st \<noteq> None \<longrightarrow> getSubscriptionStats st = (Inr zeroStats, st))
   \<and> zeroStats =
        \<lparr> total = 0, active = 0, trial = 0, paid = 0, revenue = 0, churnRate = 0 \<rparr>"
proof (intro conjI impI)
  assume up: "outage st = None"
  let ?c = "length (filter (\<lambda>s. status s = Cancelled) (rows st))"
  let ?t = "length (rows st)"
  let ?q = "(of_nat ?c :: rat) / of_nat ?t"
  have q: "0 \<le> ?q" by simp
  have rev: "(1 - unit_roundoff) ^ (Suc 0 + ?t) * (0 + (\<Sum>s\<leftarrow>rows st. flat_price (plan_type s)))
           \<le> foldl (\<lambda>sum sub.
                      if plan_type sub = ''monthly'' then dadd sum (dbl 2.99)
                      else if plan_type sub = ''semiannual'' then dadd sum (dbl 9.99)
                      else if plan_type sub = ''annual'' then dadd sum (dbl 19.99)
                      else sum) 0 (rows st)
         \<and> foldl (\<lambda>sum sub.
                      if plan_type sub = ''monthly'' then dadd sum (dbl 2.99)
                      else if plan_type sub = ''semiannual'' then dadd sum (dbl 9.99)
                      else if plan_type sub = ''annual'' then dadd sum (dbl 19.99)
                      else sum) 0 (rows st)
           \<le> (1 + unit_roundoff) ^ (Suc 0 + ?t) * (0 + (\<Sum>s\<leftarrow>rows st. flat_price (plan_type s)))"
    by (rule revenue_foldl_within) simp_all
  have churn: "(1 - unit_roundoff) ^ 2 * (100 * ?q) \<le> (if rows st = [] then 0 else dmul (dbl ?q) 100)
      \<and> (if rows st = [] then 0 else dmul (dbl ?q) 100) \<le> (1 + unit_roundoff) ^ 2 * (100 * ?q)"
    using churn_within [OF q] by simp
  show "\<exists>r. getSubscriptionStats st = (Inr r, st)
          \<and> total r = length (rows st)
          \<and> active r = length (filter (\<lambda>s. status s = Active) (rows st))
          \<and> trial r = length (filter (\<lambda>s. plan_type s = ''trial'') (rows st))
          \<and> paid r = length (filter (\<lambda>s. plan_type s \<noteq> ''trial'') (rows st))
          \<and> (1 - unit_roundoff) ^ (length (rows st) + 1)
                * (\<Sum>s\<leftarrow>rows st. flat_price (plan_type s)) \<le> revenue r
          \<and> revenue r \<le> (1 + unit_roundoff) ^ (length (rows st) + 1)
                * (\<Sum>s\<leftarrow>rows st. flat_price (plan_type s))
          \<and> (1 - unit_roundoff) ^ 2
                * (100 * of_nat (length (filter (\<lambda>s. status s = Cancelled) (rows st)))
                     / of_nat (length (rows st))) \<le> churnRate r
          \<and> churnRate r \<le> (1 + unit_roundoff) ^ 2
                * (100 * of_nat (length (filter (\<lambda>s. status s = Cancelled) (rows st)))
                     / of_nat (length (rows st)))
          \<and> (rows st = [] \<longrightarrow> churnRate r = 0)"
    unfolding getSubscriptionStats_up [OF up]
    using rev churn by (intro exI conjI) (rule refl, simp_all)
next
  assume "outage st = None \<and> rows st = []"
  then show "getSubscriptionStats st = (Inr zeroStats, st)"
    by (simp add: getSubscriptionStats_up zeroStats_def)
next
  assume "outage st \<noteq> None"
  then show "getSubscriptionStats st = (Inr zeroStats, st)"
    by (rule getSubscriptionStats_outage)
next
  show "zeroStats = \<lparr> total = 0, active = 0, trial = 0, paid = 0, revenue = 0, churnRate = 0 \<rparr>"
    by (simp add: zeroStats_def)
qed

theorem getSubscriptionStats_rounded_witness:
  "(\<exists>r. getSubscriptionStats \<lparr> rows = samplePopulation, outage = None \<rparr>
          = (Inr r, \<lparr> rows = samplePopulation, outage = None \<rparr>)
        \<and> total r = 5 \<and> active r = 4 \<and> trial r = 1 \<and> paid r = 4
        \<and> (1 - unit_roundoff) ^ 6 * 35.96 \<le> revenue r
        \<and> revenue r \<le> (1 + unit_roundoff) ^ 6 * 35.96
        \<and> revenue r = 5060920081257595 / 140737488355328
        \<and> churnRate r = 20)
   \<and> getSubscriptionStats \<lparr> rows = [], outage = None \<rparr>
       = (Inr zeroStats, \<lparr> rows = [], outage = None \<rparr>)
   \<and> getSubscriptionStats
        \<lparr> rows = samplePopulation,
          outage = Some (ErrorReply (PostgrestError ''57014'' ''timeout'')) \<rparr>
       = (Inr zeroStats,
          \<lparr> rows = samplePopulation,
            outage = Some (ErrorReply (PostgrestError ''57014'' ''timeout'')) \<rparr>)"
proof -
  let ?st = "\<lparr> rows = samplePopulation, outage = None \<rparr>"
  let ?empty = "\<lparr> rows = [], outage = None \<rparr>"
  let ?down = "\<lparr> rows = samplePopulation,
                 outage = Some (ErrorReply (PostgrestError ''57014'' ''timeout'')) \<rparr>"
  have n: "length (rows ?st) + 1 = 6" by (simp add: samplePopulation_def)
  have e: "(\<Sum>s\<leftarrow>rows ?st. flat_price (plan_type s)) = 35.96"
    by (simp add: samplePopulation_def sampleRow_def flat_price_def)
  have v: "getSubscriptionStats ?st =
      (Inr \<lparr> total = 5, active = 4, trial = 1, paid = 4,
              revenue = 5060920081257595 / 140737488355328, churnRate = 20 \<rparr>, ?st)"
    by code_simp
  have "outage ?st = None" by simp
  with getSubscriptionStats_rounded [of ?st, THEN conjunct1]
  have "\<exists>r. getSubscriptionStats ?st = (Inr r, ?st)
          \<and> total r = length (rows ?st)
          \<and> active r = length (filter (\<lambda>s. status s = Active) (rows ?st))
          \<and> trial r = length (filter (\<lambda>s. plan_type s = ''trial'') (rows ?st))
          \<and> paid r = length (filter (\<lambda>s. plan_type s \<noteq> ''trial'') (rows ?st))
          \<and> (1 - unit_roundoff) ^ (length (rows ?st) + 1)
                * (\<Sum>s\<leftarrow>rows ?st. flat_price (plan_type s)) \<le> revenue r
          \<and> revenue r \<le> (1 + unit_roundoff) ^ (length (rows ?st) + 1)
                * (\<Sum>s\<leftarrow>rows ?st. flat_price (plan_type s))
          \<and> (1 - unit_roundoff) ^ 2
                * (100 * of_nat (length (filter (\<lambda>s. status s = Cancelled) (rows ?st)))
                     / of_nat (length (rows ?st))) \<le> churnRate r
          \<and> churnRate r \<le> (1 + unit_roundoff) ^ 2
                * (100 * of_nat (length (filter (\<lambda>s. status s = Cancelled) (rows ?st)))
                     / of_nat (length (rows ?st)))
          \<and> (rows ?st = [] \<longrightarrow> churnRate r = 0)"
    by (rule mp)
  then obtain r where res: "getSubscriptionStats ?st = (Inr r, ?st)"
    and lo: "(1 - unit_roundoff) ^ (length (rows ?st) + 1)
                * (\<Sum>s\<leftarrow>rows ?st. flat_price (plan_type s)) \<le> revenue r"
    and hi: "revenue r \<le> (1 + unit_roundoff) ^ (length (rows ?st) + 1)
                * (\<Sum>s\<leftarrow>rows ?st. flat_price (plan_type s))"
    by (elim exE conjE)
  from res v have r: "r = \<lparr> total = 5, active = 4, trial = 1, paid = 4,
              revenue = 5060920081257595 / 140737488355328, churnRate = 20 \<rparr>"
    by simp
  from lo hi have bounds: "(1 - unit_roundoff) ^ 6 * 35.96 \<le> revenue r
        \<and> revenue r \<le> (1 + unit_roundoff) ^ 6 * 35.96"
    unfolding n e by (intro conjI)
  have a: "\<exists>r. getSubscriptionStats ?st = (Inr r, ?st)
        \<and> total r = 5 \<and> active r = 4 \<and> trial r = 1 \<and> paid r = 4
        \<and> (1 - unit_roundoff) ^ 6 * 35.96 \<le> revenue r
        \<and> revenue r \<le> (1 + unit_roundoff) ^ 6 * 35.96
        \<and> revenue r = 5060920081257595 / 140737488355328
        \<and> churnRate r = 20"
    using res bounds by (intro exI [of _ r] conjI) (simp_all add: r)
  have "outage ?empty = None \<and> rows ?empty = []" by simp
  with getSubscriptionStats_rounded [of ?empty, THEN conjunct2, THEN conjunct1]
  have b: "getSubscriptionStats ?empty = (Inr zeroStats, ?empty)" by (rule mp)
  have "outage ?down \<noteq> None" by simp
  with getSubscriptionStats_rounded [of ?down, THEN conjunct2, THEN conjunct2, THEN conjunct1]
  have c: "getSubscriptionStats ?down = (Inr zeroStats, ?down)" by (rule mp)
  from a b c show ?thesis by (intro conjI)
qed

end
